theory Spec2Isabelle
  imports Complex_Main
begin

section \<open>Python values that reach the handler\<close>

text \<open>
  \<open>request.get_json()\<close> hands the handler whatever \<open>json.loads\<close> built: \<open>None\<close>, a bool,
  an int, a float, a str, a list or a dict. A dict is kept as an association list in
  insertion order, read with \<open>map_of\<close>. A float is only tested for zero by the handler, so
  its value is kept as a rational or as one of the special values \<open>json.loads\<close> accepts.
  A \<open>char\<close> stands for one character of a Python str.
\<close>

datatype pyfloat = Finite rat | NegZero | PosInf | NegInf | NaN

datatype json =
    JNull
  | JBool bool
  | JInt int
  | JFloat pyfloat
  | JStr string
  | JArr "json list"
  | JObj "(string \<times> json) list"

text \<open>Truth value of a Python object, as \<open>not request_data\<close> reads it.\<close>

fun truthy :: "json \<Rightarrow> bool" where
  "truthy JNull = False"
| "truthy (JBool b) = b"
| "truthy (JInt i) = (i \<noteq> 0)"
| "truthy (JFloat f) = (f \<noteq> Finite 0 \<and> f \<noteq> NegZero)"
| "truthy (JStr s) = (s \<noteq> [])"
| "truthy (JArr xs) = (xs \<noteq> [])"
| "truthy (JObj kvs) = (kvs \<noteq> [])"

fun type_name :: "json \<Rightarrow> string" where
  "type_name JNull = ''NoneType''"
| "type_name (JBool b) = ''bool''"
| "type_name (JInt i) = ''int''"
| "type_name (JFloat f) = ''float''"
| "type_name (JStr s) = ''str''"
| "type_name (JArr xs) = ''list''"
| "type_name (JObj kvs) = ''dict''"

definition quoted :: "string \<Rightarrow> string" where
  "quoted s = CHR 0x27 # s @ [CHR 0x27]"

section \<open>Exceptions\<close>

text \<open>
  Every exception of the model is an instance of Python's \<open>Exception\<close>; each carries the
  text \<open>str(e)\<close> returns. An \<open>HttpResponseError\<close> of azure-core also has the attribute
  \<open>error\<close>: \<open>None\<close>, or an object with an optional \<open>code\<close> and an optional \<open>message\<close>.
  The texts of \<open>TypeError\<close> are CPython 3.11's.
\<close>

record odata_error =
  code :: "string option"
  message :: "string option"

datatype exn =
    HttpResponseError "odata_error option" string
  | TypeError string
  | KeyError string
  | OtherException string

fun str_exn :: "exn \<Rightarrow> string" where
  "str_exn (HttpResponseError err s) = s"
| "str_exn (TypeError s) = s"
| "str_exn (KeyError k) = quoted k"
| "str_exn (OtherException s) = s"

section \<open>The two Python operators the validation uses\<close>

text \<open>\<open>needle in s\<close> on two strs: \<open>needle\<close> occurs in \<open>s\<close> as a contiguous run.\<close>

fun str_contains :: "string \<Rightarrow> string \<Rightarrow> bool" where
  "str_contains needle [] = (needle = [])"
| "str_contains needle (c # cs) =
     (take (length needle) (c # cs) = needle \<or> str_contains needle cs)"

text \<open>
  \<open>k in v\<close> for a str \<open>k\<close>: a key of a dict, an element of a list, a substring of a str;
  anything else is not a container and raises \<open>TypeError\<close>.
\<close>

fun py_in :: "string \<Rightarrow> json \<Rightarrow> exn + bool" where
  "py_in k (JObj kvs) = Inr (map_of kvs k \<noteq> None)"
| "py_in k (JArr xs) = Inr (List.member xs (JStr k))"
| "py_in k (JStr s) = Inr (str_contains k s)"
| "py_in k v = Inl (TypeError (''argument of type '' @ quoted (type_name v) @ '' is not iterable''))"

text \<open>\<open>v[k]\<close> for a str \<open>k\<close>: only a dict can be indexed by a str.\<close>

fun py_getitem :: "json \<Rightarrow> string \<Rightarrow> exn + json" where
  "py_getitem (JObj kvs) k = (case map_of kvs k of Some v \<Rightarrow> Inr v | None \<Rightarrow> Inl (KeyError k))"
| "py_getitem (JStr s) k = Inl (TypeError (''string indices must be integers, not '' @ quoted ''str''))"
| "py_getitem (JArr xs) k = Inl (TypeError ''list indices must be integers or slices, not str'')"
| "py_getitem v k = Inl (TypeError (quoted (type_name v) @ '' object is not subscriptable''))"

section \<open>The outside world: environment, moderation service, effects\<close>

type_synonym environ = "string \<rightharpoonup> string"

text \<open>
  One entry of \<open>response.categories_analysis\<close>. \<open>TextCategory\<close> is the SDK's enumeration;
  \<open>OtherCategory\<close> stands for a category name that is none of the four.
\<close>

datatype text_category = HATE | SELF_HARM | SEXUAL | VIOLENCE | OtherCategory string

record text_categories_analysis =
  category :: text_category
  severity :: "int option"

text \<open>
  What the moderation service does when the handler reaches it: building the client
  raises, the call \<open>client.analyze_text\<close> raises, or the call returns the list
  \<open>categories_analysis\<close>. Each request makes at most one call, so one outcome per request
  is all the handler can observe.
\<close>

datatype service =
    ClientFails exn
  | CallFails exn
  | CallReturns "text_categories_analysis list"

text \<open>
  The effects of a request, in the order they happen: a read of the process environment,
  a printed line, the printed \<open>hate_result\<close> object (its rendering belongs to the SDK),
  and the outbound call with endpoint, key and text.
\<close>

datatype event =
    EnvGet string
  | Print string
  | PrintResult "text_categories_analysis option"
  | AnalyzeText string string json

section \<open>Response normalisation (app.py, lines 61 to 77)\<close>

text \<open>\<open>next((item for item in items if item.category == c), None)\<close>\<close>

definition find_category ::
  "text_category \<Rightarrow> text_categories_analysis list \<Rightarrow> text_categories_analysis option" where
  "find_category c items = find (\<lambda>item. category item = c) items"

definition severity_json :: "int option \<Rightarrow> json" where
  "severity_json s = (case s of None \<Rightarrow> JNull | Some i \<Rightarrow> JInt i)"

text \<open>\<open>{"severity": r.severity} if r else None\<close>: an entry that was found is truthy.\<close>

definition result_entry :: "text_categories_analysis option \<Rightarrow> json option" where
  "result_entry r =
     (case r of
        Some item \<Rightarrow> Some (JObj [(''severity'', severity_json (severity item))])
      | None \<Rightarrow> None)"

text \<open>\<open>{k: v for k, v in results.items() if v is not None}\<close>\<close>

fun filter_none :: "(string \<times> json option) list \<Rightarrow> (string \<times> json) list" where
  "filter_none [] = []"
| "filter_none ((k, None) # kvs) = filter_none kvs"
| "filter_none ((k, Some v) # kvs) = (k, v) # filter_none kvs"

definition normalize_results :: "text_categories_analysis list \<Rightarrow> (string \<times> json) list" where
  "normalize_results items =
     (let hate_result = find_category HATE items;
          self_harm_result = find_category SELF_HARM items;
          sexual_result = find_category SEXUAL items;
          violence_result = find_category VIOLENCE items;
          results = [(''hate'', result_entry hate_result),
                     (''selfHarm'', result_entry self_harm_result),
                     (''sexual'', result_entry sexual_result),
                     (''violence'', result_entry violence_result)]
      in filter_none results)"

section \<open>analyze_content_safety (app.py, lines 30 to 86)\<close>

definition key_prefix :: "string option \<Rightarrow> string" where
  "key_prefix key =
     (case key of
        Some k \<Rightarrow> if k \<noteq> [] then take 5 k else ''Not found''
      | None \<Rightarrow> ''Not found'')"

definition str_opt :: "string option \<Rightarrow> string" where
  "str_opt s = (case s of Some v \<Rightarrow> v | None \<Rightarrow> ''None'')"

definition credentials_error :: json where
  "credentials_error =
     JObj [(''error'', JStr (''Azure Content Safety credentials not configured. '' @
       ''Set CONTENT_SAFETY_KEY and CONTENT_SAFETY_ENDPOINT environment variables.''))]"

text \<open>
  The body of the \<open>try\<close>: it returns a pair of result and status, or raises. \<open>not key\<close>
  holds for an unset variable and for an empty one.
\<close>

definition analyze_try :: "environ \<Rightarrow> service \<Rightarrow> json \<Rightarrow> (exn + json \<times> nat) \<times> event list" where
  "analyze_try env svc text =
     (let key = env ''CONTENT_SAFETY_KEY'';
          endpoint = env ''CONTENT_SAFETY_ENDPOINT'';
          evs = [EnvGet ''CONTENT_SAFETY_KEY'', EnvGet ''CONTENT_SAFETY_ENDPOINT'',
                 Print (''API Key (first 5 chars): '' @ key_prefix key),
                 Print (''Endpoint: '' @ str_opt endpoint)]
      in case (key, endpoint) of
           (Some k, Some ep) \<Rightarrow>
             if k = [] \<or> ep = [] then (Inr (credentials_error, 500), evs)
             else (case svc of
                ClientFails e \<Rightarrow> (Inl e, evs)
              | CallFails e \<Rightarrow> (Inl e, evs @ [AnalyzeText ep k text])
              | CallReturns items \<Rightarrow>
                  (Inr (JObj [(''text'', text), (''results'', JObj (normalize_results items))], 200),
                   evs @ [AnalyzeText ep k text, PrintResult (find_category HATE items)]))
         | _ \<Rightarrow> (Inr (credentials_error, 500), evs))"

text \<open>The function with its \<open>except Exception\<close>: every exception becomes a 500 result.\<close>

definition analyze_content_safety :: "environ \<Rightarrow> service \<Rightarrow> json \<Rightarrow> (json \<times> nat) \<times> event list" where
  "analyze_content_safety env svc text =
     (case analyze_try env svc text of
        (Inr r, evs) \<Rightarrow> (r, evs)
      | (Inl e, evs) \<Rightarrow>
          ((JObj [(''error'', JStr (str_exn e))], 500),
           evs @ [Print (''Error in analyze_content_safety: '' @ str_exn e)]))"

section \<open>content_text_safety (app.py, lines 89 to 125)\<close>

text \<open>
  A POST is given by what \<open>request.get_json()\<close> does with it: it returns the parsed body
  (\<open>None\<close> is \<open>JNull\<close>) or raises. Which bodies make Flask raise is Flask's business.
\<close>

datatype request = GetJsonReturns json | GetJsonRaises exn

definition bad_request :: json where
  "bad_request = JObj [(''error'', JStr ''Request must include 'text' field'')]"

text \<open>
  The body of the \<open>try\<close>. \<open>asyncio.run\<close> runs the coroutine to its end and \<open>jsonify\<close>
  serialises a value built from parsed JSON and integers, so neither adds a branch.
\<close>

definition content_text_safety_try ::
  "environ \<Rightarrow> service \<Rightarrow> request \<Rightarrow> (exn + json \<times> nat) \<times> event list" where
  "content_text_safety_try env svc req =
     (case req of
        GetJsonRaises e \<Rightarrow> (Inl e, [])
      | GetJsonReturns request_data \<Rightarrow>
          if \<not> truthy request_data then (Inr (bad_request, 400), [])
          else (case py_in ''text'' request_data of
             Inl e \<Rightarrow> (Inl e, [])
           | Inr present \<Rightarrow>
               if \<not> present then (Inr (bad_request, 400), [])
               else (case py_getitem request_data ''text'' of
                  Inl e \<Rightarrow> (Inl e, [])
                | Inr text_to_analyze \<Rightarrow>
                    (case analyze_content_safety env svc text_to_analyze of
                       (r, evs) \<Rightarrow> (Inr r, evs)))))"

definition opt_str_json :: "string option \<Rightarrow> json" where
  "opt_str_json s = (case s of None \<Rightarrow> JNull | Some v \<Rightarrow> JStr v)"

text \<open>The two handlers, in the order of the source.\<close>

fun handle_exn :: "exn \<Rightarrow> event list \<Rightarrow> (json \<times> nat) \<times> event list" where
  "handle_exn (HttpResponseError err s) evs =
     ((JObj [(''error'', JStr ''Azure Content Safety API error''),
             (''details'',
                (case err of
                   Some e \<Rightarrow> JObj [(''code'', opt_str_json (code e)),
                                   (''message'', opt_str_json (message e))]
                 | None \<Rightarrow> JObj []))], 500), evs)"
| "handle_exn e evs =
     ((JObj [(''error'', JStr (str_exn e))], 500),
      evs @ [Print (''Error in content_text_safety: '' @ str_exn e)])"

definition content_text_safety ::
  "environ \<Rightarrow> service \<Rightarrow> request \<Rightarrow> (json \<times> nat) \<times> event list" where
  "content_text_safety env svc req =
     (case content_text_safety_try env svc req of
        (Inr r, evs) \<Rightarrow> (r, evs)
      | (Inl e, evs) \<Rightarrow> handle_exn e evs)"

section \<open>The startup banner (main.py, lines 13 to 18)\<close>



section \<open>Reading a run\<close>

definition response :: "(json \<times> nat) \<times> event list \<Rightarrow> json \<times> nat" where
  "response run = fst run"

definition status :: "(json \<times> nat) \<times> event list \<Rightarrow> nat" where
  "status run = snd (fst run)"

definition body :: "(json \<times> nat) \<times> event list \<Rightarrow> json" where
  "body run = fst (fst run)"

definition effects :: "(json \<times> nat) \<times> event list \<Rightarrow> event list" where
  "effects run = snd run"

fun is_outbound :: "event \<Rightarrow> bool" where
  "is_outbound (AnalyzeText ep k t) = True"
| "is_outbound e = False"

fun is_env_read :: "event \<Rightarrow> bool" where
  "is_env_read (EnvGet n) = True"
| "is_env_read e = False"



section \<open>Facts about the model\<close>

lemma find_category_None: "find_category c items = None \<longleftrightarrow> (\<forall>item \<in> set items. category item \<noteq> c)"
  by (auto simp: find_category_def find_None_iff)

lemma map_of_normalize_results:
  "map_of (normalize_results items) ''hate'' = result_entry (find_category HATE items)"
  "map_of (normalize_results items) ''selfHarm'' = result_entry (find_category SELF_HARM items)"
  "map_of (normalize_results items) ''sexual'' = result_entry (find_category SEXUAL items)"
  "map_of (normalize_results items) ''violence'' = result_entry (find_category VIOLENCE items)"
  by (simp_all add: normalize_results_def Let_def result_entry_def split: option.splits)

lemma analyze_unconfigured:
  assumes "env ''CONTENT_SAFETY_KEY'' = None \<or> env ''CONTENT_SAFETY_KEY'' = Some [] \<or>
           env ''CONTENT_SAFETY_ENDPOINT'' = None \<or> env ''CONTENT_SAFETY_ENDPOINT'' = Some []"
  shows "analyze_content_safety env svc t =
    ((credentials_error, 500),
     [EnvGet ''CONTENT_SAFETY_KEY'', EnvGet ''CONTENT_SAFETY_ENDPOINT'',
      Print (''API Key (first 5 chars): '' @ key_prefix (env ''CONTENT_SAFETY_KEY'')),
      Print (''Endpoint: '' @ str_opt (env ''CONTENT_SAFETY_ENDPOINT''))])"
  using assms by (auto simp: analyze_content_safety_def analyze_try_def Let_def split: option.splits)

lemma analyze_configured:
  assumes "env ''CONTENT_SAFETY_KEY'' = Some k" "k \<noteq> []"
          "env ''CONTENT_SAFETY_ENDPOINT'' = Some ep" "ep \<noteq> []"
  shows "analyze_content_safety env svc t =
    (case svc of
       ClientFails e \<Rightarrow>
         ((JObj [(''error'', JStr (str_exn e))], 500),
          [EnvGet ''CONTENT_SAFETY_KEY'', EnvGet ''CONTENT_SAFETY_ENDPOINT'',
           Print (''API Key (first 5 chars): '' @ take 5 k), Print (''Endpoint: '' @ ep),
           Print (''Error in analyze_content_safety: '' @ str_exn e)])
     | CallFails e \<Rightarrow>
         ((JObj [(''error'', JStr (str_exn e))], 500),
          [EnvGet ''CONTENT_SAFETY_KEY'', EnvGet ''CONTENT_SAFETY_ENDPOINT'',
           Print (''API Key (first 5 chars): '' @ take 5 k), Print (''Endpoint: '' @ ep),
           AnalyzeText ep k t,
           Print (''Error in analyze_content_safety: '' @ str_exn e)])
     | CallReturns items \<Rightarrow>
         ((JObj [(''text'', t), (''results'', JObj (normalize_results items))], 200),
          [EnvGet ''CONTENT_SAFETY_KEY'', EnvGet ''CONTENT_SAFETY_ENDPOINT'',
           Print (''API Key (first 5 chars): '' @ take 5 k), Print (''Endpoint: '' @ ep),
           AnalyzeText ep k t, PrintResult (find_category HATE items)]))"
  using assms
  by (simp add: analyze_content_safety_def analyze_try_def Let_def key_prefix_def str_opt_def
      split: service.splits)

lemma handler_object_with_text:
  assumes "map_of d ''text'' = Some t"
  shows "content_text_safety env svc (GetJsonReturns (JObj d)) = analyze_content_safety env svc t"
proof -
  from assms have "d \<noteq> []" by auto
  with assms show ?thesis
    by (simp add: content_text_safety_def content_text_safety_try_def split: prod.splits)
qed


text \<open>The handler with both \<open>try\<close> blocks and their handlers merged into one case tree.\<close>

lemma content_text_safety_unfold:
  "content_text_safety env svc req =
     (case req of
        GetJsonRaises e \<Rightarrow> handle_exn e []
      | GetJsonReturns v \<Rightarrow>
          if \<not> truthy v then ((bad_request, 400), [])
          else (case py_in ''text'' v of
             Inl e \<Rightarrow> handle_exn e []
           | Inr present \<Rightarrow>
               if \<not> present then ((bad_request, 400), [])
               else (case py_getitem v ''text'' of
                  Inl e \<Rightarrow> handle_exn e []
                | Inr t \<Rightarrow> analyze_content_safety env svc t)))"
  by (simp add: content_text_safety_def content_text_safety_try_def
      split: request.splits sum.splits prod.splits)



lemma status_analyze: "status (analyze_content_safety env svc t) = 200 \<or>
   status (analyze_content_safety env svc t) = 500"
  by (auto simp: analyze_content_safety_def analyze_try_def Let_def status_def
      split: option.splits service.splits)

lemma status_handle_exn: "status (handle_exn e evs) = 500"
  by (cases e) (simp_all add: status_def)

text \<open>
  What the validation does reject: a falsy body (\<open>None\<close>, \<open>false\<close>, zero, an empty str, list
  or dict) and a dict without the key, with no effect at all.
\<close>

lemma validation_rejects:
  assumes "\<not> truthy v \<or> (\<exists>d. v = JObj d \<and> map_of d ''text'' = None)"
  shows "content_text_safety env svc (GetJsonReturns v) = ((bad_request, 400), [])"
  using assms by (auto simp: content_text_safety_unfold)

text \<open>Every request gets a response, with one of three status codes.\<close>

lemma status_cases:
  "status (content_text_safety env svc req) = 200 \<or>
   status (content_text_safety env svc req) = 400 \<or>
   status (content_text_safety env svc req) = 500"
  using status_analyze [of env svc] status_handle_exn [of _ "[]"]
  by (auto simp: content_text_safety_unfold status_def split: request.splits sum.splits)

section \<open>The claims\<close>

subsection \<open>Response normalisation\<close>

text \<open>
  Claim C4. For every raw list and each of the four categories, the normalised results hold
  the category's key exactly when the list has an entry of that category, and the value is
  \<open>{"severity": s}\<close> for the severity \<open>s\<close> of the first such entry. A response with hate at
  severity 2 and violence at severity 0 normalises to exactly those two keys.
\<close>

theorem c4_normalize_results:
  "(\<forall>(name, c) \<in> {(''hate'', HATE), (''selfHarm'', SELF_HARM), (''sexual'', SEXUAL), (''violence'', VIOLENCE)}.
      map_of (normalize_results items) name =
        (case find (\<lambda>item. category item = c) items of
           None \<Rightarrow> None
         | Some item \<Rightarrow> Some (JObj [(''severity'', severity_json (severity item))]))
      \<and> ((\<exists>v. map_of (normalize_results items) name = Some v) \<longleftrightarrow>
           (\<exists>item \<in> set items. category item = c)))
   \<and> normalize_results [\<lparr>category = HATE, severity = Some 2\<rparr>, \<lparr>category = VIOLENCE, severity = Some 0\<rparr>]
       = [(''hate'', JObj [(''severity'', JInt 2)]), (''violence'', JObj [(''severity'', JInt 0)])]"
proof -
  have entry: "result_entry (find_category c items) =
      (case find (\<lambda>item. category item = c) items of
         None \<Rightarrow> None
       | Some item \<Rightarrow> Some (JObj [(''severity'', severity_json (severity item))]))" for c
    by (simp add: result_entry_def find_category_def)
  have present: "(\<exists>v. result_entry (find_category c items) = Some v) \<longleftrightarrow>
      (\<exists>item \<in> set items. category item = c)" for c
    using find_category_None [of c items]
    by (cases "find_category c items") (auto simp: result_entry_def)
  have example: "normalize_results [\<lparr>category = HATE, severity = Some 2\<rparr>, \<lparr>category = VIOLENCE, severity = Some 0\<rparr>]
       = [(''hate'', JObj [(''severity'', JInt 2)]), (''violence'', JObj [(''severity'', JInt 0)])]"
    by (simp add: normalize_results_def find_category_def result_entry_def severity_json_def)
  show ?thesis
    using entry present example by (simp add: map_of_normalize_results)
qed

text \<open>The statement of C4 at a list with two violence entries and no sexual entry.\<close>

theorem c4_normalize_results_witness:
  "map_of (normalize_results [\<lparr>category = VIOLENCE, severity = Some 3\<rparr>, \<lparr>category = HATE, severity = Some 1\<rparr>,
       \<lparr>category = VIOLENCE, severity = Some 5\<rparr>]) ''violence'' = Some (JObj [(''severity'', JInt 3)])
   \<and> map_of (normalize_results [\<lparr>category = VIOLENCE, severity = Some 3\<rparr>, \<lparr>category = HATE, severity = Some 1\<rparr>,
       \<lparr>category = VIOLENCE, severity = Some 5\<rparr>]) ''sexual'' = None"
  using c4_normalize_results [of "[\<lparr>category = VIOLENCE, severity = Some 3\<rparr>, \<lparr>category = HATE, severity = Some 1\<rparr>,
       \<lparr>category = VIOLENCE, severity = Some 5\<rparr>]"]
  by (simp add: severity_json_def)

text \<open>
  Claim C5, as stated, fails: an entry whose severity is \<open>None\<close> is found, is truthy, and the
  filter drops only the values that are \<open>None\<close> themselves, so its key stays with the value
  \<open>{"severity": null}\<close>.
\<close>

theorem c5_null_severity_kept:
  "map_of (normalize_results [\<lparr>category = SEXUAL, severity = None\<rparr>]) ''sexual''
     = Some (JObj [(''severity'', JNull)])"
  by (simp add: map_of_normalize_results find_category_def result_entry_def severity_json_def)

text \<open>
  Claim C5, amended. A category with no entry in the raw list is omitted from the
  normalised results; a category whose first entry has a null severity is kept, with the
  value \<open>{"severity": null}\<close>.
\<close>

theorem c5_absent_omitted:
  "\<forall>(name, c) \<in> {(''hate'', HATE), (''selfHarm'', SELF_HARM), (''sexual'', SEXUAL), (''violence'', VIOLENCE)}.
      ((\<forall>item \<in> set items. category item \<noteq> c) \<longrightarrow> map_of (normalize_results items) name = None)
      \<and> (\<forall>item. find (\<lambda>item. category item = c) items = Some item \<and> severity item = None \<longrightarrow>
             map_of (normalize_results items) name = Some (JObj [(''severity'', JNull)]))"
proof -
  have absent: "(\<forall>item \<in> set items. category item \<noteq> c) \<Longrightarrow> result_entry (find_category c items) = None" for c
    using find_category_None [of c items] by (simp add: result_entry_def)
  have null: "find (\<lambda>item. category item = c) items = Some item \<Longrightarrow> severity item = None \<Longrightarrow>
      result_entry (find_category c items) = Some (JObj [(''severity'', JNull)])" for c item
    by (simp add: result_entry_def find_category_def severity_json_def)
  show ?thesis
    using absent null by (auto simp: map_of_normalize_results)
qed

text \<open>The amended C5 at a list whose only entry is hate with a null severity.\<close>

theorem c5_absent_omitted_witness:
  "map_of (normalize_results [\<lparr>category = HATE, severity = None\<rparr>]) ''hate'' = Some (JObj [(''severity'', JNull)])
   \<and> map_of (normalize_results [\<lparr>category = HATE, severity = None\<rparr>]) ''violence'' = None"
  using c5_absent_omitted [of "[\<lparr>category = HATE, severity = None\<rparr>]"]
  by simp

subsection \<open>Validation and errors\<close>

text \<open>
  Claim C1 says that valid JSON lacking a \<open>text\<close> field is answered with 400 and the fixed
  message. The validation tests \<open>not request_data\<close> and \<open>'text' not in request_data\<close>
  without looking at the type of the body. For the JSON number 5, which has no field at
  all, the membership test raises \<open>TypeError\<close>, the generic handler catches it, and the
  answer is 500 with the text of the exception.
\<close>

theorem c1_number_body_answers_500:
  "response (content_text_safety env svc (GetJsonReturns (JInt 5))) =
     (JObj [(''error'', JStr (''argument of type '' @ quoted ''int'' @ '' is not iterable''))], 500)"
  by (simp add: content_text_safety_unfold response_def)

text \<open>
  Claim C2. For a body that is an object with the key \<open>text\<close>, when the key or the endpoint
  variable is unset or empty, the response is 500 with the fixed configuration message, and
  the effects of the request hold no outbound call.
\<close>

theorem c2_credentials_not_configured:
  assumes "map_of d ''text'' = Some t"
    and "env ''CONTENT_SAFETY_KEY'' = None \<or> env ''CONTENT_SAFETY_KEY'' = Some [] \<or>
         env ''CONTENT_SAFETY_ENDPOINT'' = None \<or> env ''CONTENT_SAFETY_ENDPOINT'' = Some []"
  shows "response (content_text_safety env svc (GetJsonReturns (JObj d))) =
           (JObj [(''error'', JStr ''Azure Content Safety credentials not configured. Set CONTENT_SAFETY_KEY and CONTENT_SAFETY_ENDPOINT environment variables.'')], 500)
         \<and> filter is_outbound (effects (content_text_safety env svc (GetJsonReturns (JObj d)))) = []"
  using assms(2)
  by (simp add: handler_object_with_text [OF assms(1)] analyze_unconfigured [OF assms(2)]
      response_def effects_def credentials_error_def)

text \<open>C2 with the key set and the endpoint unset.\<close>

theorem c2_credentials_not_configured_witness:
  "response (content_text_safety [''CONTENT_SAFETY_KEY'' \<mapsto> ''0123456789abcdef''] (CallReturns [])
       (GetJsonReturns (JObj [(''text'', JStr ''hello'')]))) =
     (JObj [(''error'', JStr ''Azure Content Safety credentials not configured. Set CONTENT_SAFETY_KEY and CONTENT_SAFETY_ENDPOINT environment variables.'')], 500)
   \<and> filter is_outbound (effects (content_text_safety [''CONTENT_SAFETY_KEY'' \<mapsto> ''0123456789abcdef'']
       (CallReturns []) (GetJsonReturns (JObj [(''text'', JStr ''hello'')])))) = []"
  using c2_credentials_not_configured [of "[(''text'', JStr ''hello'')]" "JStr ''hello''"
      "[''CONTENT_SAFETY_KEY'' \<mapsto> ''0123456789abcdef'']" "CallReturns []"]
  by simp

text \<open>
  Claim C3 says that a structured \<open>HttpResponseError\<close> of the outbound call is answered
  with \<open>{"error": "Azure Content Safety API error", "details": {code, message}}\<close>. The
  handler that builds this body is in \<open>content_text_safety\<close>, but the call is made inside
  \<open>analyze_content_safety\<close>, whose own \<open>except Exception\<close> catches the error first: with
  credentials set, the response is 500 with \<open>{"error": str(e)}\<close> and no details.
\<close>

theorem c3_structured_error_stringified:
  assumes "map_of d ''text'' = Some t"
    and "env ''CONTENT_SAFETY_KEY'' = Some k" and "k \<noteq> []"
    and "env ''CONTENT_SAFETY_ENDPOINT'' = Some ep" and "ep \<noteq> []"
  shows "response (content_text_safety env (CallFails (HttpResponseError (Some err) s))
           (GetJsonReturns (JObj d))) = (JObj [(''error'', JStr s)], 500)"
  by (simp add: handler_object_with_text [OF assms(1)] analyze_configured [OF assms(2-5)] response_def)

text \<open>C3's failing input: the service rejects the request with code \<open>InvalidRequest\<close>.\<close>

theorem c3_structured_error_stringified_witness:
  "response (content_text_safety
       [''CONTENT_SAFETY_KEY'' \<mapsto> ''0123456789abcdef'', ''CONTENT_SAFETY_ENDPOINT'' \<mapsto> ''https://cs.example'']
       (CallFails (HttpResponseError (Some \<lparr>code = Some ''InvalidRequest'', message = Some ''The request is invalid.''\<rparr>)
          ''(InvalidRequest) The request is invalid.''))
       (GetJsonReturns (JObj [(''text'', JStr ''hello'')])))
   = (JObj [(''error'', JStr ''(InvalidRequest) The request is invalid.'')], 500)"
  using c3_structured_error_stringified [of "[(''text'', JStr ''hello'')]" "JStr ''hello''"
      "[''CONTENT_SAFETY_KEY'' \<mapsto> ''0123456789abcdef'', ''CONTENT_SAFETY_ENDPOINT'' \<mapsto> ''https://cs.example'']"
      "''0123456789abcdef''" "''https://cs.example''"
      "\<lparr>code = Some ''InvalidRequest'', message = Some ''The request is invalid.''\<rparr>"
      "''(InvalidRequest) The request is invalid.''"]
  by simp

text \<open>
  Claim C6. For a body that is an object with the key \<open>text\<close>, whatever the environment and
  whatever the service does, the handler returns a response whose status is 200 or 500; it
  is 200 exactly when both credentials are set and the call returns. The exceptions of the
  model are instances of \<open>Exception\<close>, which both \<open>except\<close> clauses catch.
\<close>

theorem c6_status_200_or_500:
  assumes "map_of d ''text'' = Some t"
  shows "(status (content_text_safety env svc (GetJsonReturns (JObj d))) = 200 \<or>
          status (content_text_safety env svc (GetJsonReturns (JObj d))) = 500)
       \<and> (status (content_text_safety env svc (GetJsonReturns (JObj d))) = 200 \<longleftrightarrow>
            (\<exists>items. svc = CallReturns items) \<and>
            (\<exists>k ep. env ''CONTENT_SAFETY_KEY'' = Some k \<and> k \<noteq> [] \<and>
                    env ''CONTENT_SAFETY_ENDPOINT'' = Some ep \<and> ep \<noteq> []))"
proof -
  have "status (analyze_content_safety env svc t) = 200 \<longleftrightarrow>
            (\<exists>items. svc = CallReturns items) \<and>
            (\<exists>k ep. env ''CONTENT_SAFETY_KEY'' = Some k \<and> k \<noteq> [] \<and>
                    env ''CONTENT_SAFETY_ENDPOINT'' = Some ep \<and> ep \<noteq> [])"
    by (auto simp: analyze_content_safety_def analyze_try_def Let_def status_def
        split: option.splits service.splits)
  then show ?thesis
    using status_analyze [of env svc t] by (simp add: handler_object_with_text [OF assms])
qed

text \<open>C6 with a call that fails at the transport level.\<close>

theorem c6_status_200_or_500_witness:
  "status (content_text_safety
       [''CONTENT_SAFETY_KEY'' \<mapsto> ''0123456789abcdef'', ''CONTENT_SAFETY_ENDPOINT'' \<mapsto> ''https://cs.example'']
       (CallFails (OtherException ''connection refused''))
       (GetJsonReturns (JObj [(''text'', JStr ''hello'')]))) = 500"
  using c6_status_200_or_500 [of "[(''text'', JStr ''hello'')]" "JStr ''hello''"
      "[''CONTENT_SAFETY_KEY'' \<mapsto> ''0123456789abcdef'', ''CONTENT_SAFETY_ENDPOINT'' \<mapsto> ''https://cs.example'']"
      "CallFails (OtherException ''connection refused'')"]
  by auto

text \<open>
  Claim C7, as stated, fails: the body \<open>{"text": null}\<close> is a non-empty dict that has the key,
  so it passes the validation; \<open>None\<close> is handed to \<open>analyze_content_safety\<close> and the
  outbound call is made with it. Here the service refuses the text and the answer is 500.
\<close>

theorem c7_null_text_not_rejected:
  "status (content_text_safety
       [''CONTENT_SAFETY_KEY'' \<mapsto> ''0123456789abcdef'', ''CONTENT_SAFETY_ENDPOINT'' \<mapsto> ''https://cs.example'']
       (CallFails (OtherException ''invalid text''))
       (GetJsonReturns (JObj [(''text'', JNull)]))) = 500
   \<and> filter is_outbound (effects (content_text_safety
       [''CONTENT_SAFETY_KEY'' \<mapsto> ''0123456789abcdef'', ''CONTENT_SAFETY_ENDPOINT'' \<mapsto> ''https://cs.example'']
       (CallFails (OtherException ''invalid text''))
       (GetJsonReturns (JObj [(''text'', JNull)]))))
     = [AnalyzeText ''https://cs.example'' ''0123456789abcdef'' JNull]"
  by (simp add: content_text_safety_unfold analyze_content_safety_def analyze_try_def Let_def status_def effects_def)

text \<open>
  Claim C7, amended. A body that is an object with the key \<open>text\<close> and the value null is
  not answered with 400; when both credentials are set and the client is built, exactly one
  outbound call is made, with the text null.
\<close>

theorem c7_null_text_passed_on:
  assumes "map_of d ''text'' = Some JNull"
  shows "status (content_text_safety env svc (GetJsonReturns (JObj d))) \<noteq> 400
       \<and> (\<forall>k ep. env ''CONTENT_SAFETY_KEY'' = Some k \<and> k \<noteq> [] \<and>
              env ''CONTENT_SAFETY_ENDPOINT'' = Some ep \<and> ep \<noteq> [] \<and>
              (\<forall>e. svc \<noteq> ClientFails e) \<longrightarrow>
            filter is_outbound (effects (content_text_safety env svc (GetJsonReturns (JObj d))))
              = [AnalyzeText ep k JNull])"
proof -
  have "status (content_text_safety env svc (GetJsonReturns (JObj d))) \<noteq> 400"
    using status_analyze [of env svc JNull] by (auto simp: handler_object_with_text [OF assms])
  moreover have "filter is_outbound (effects (content_text_safety env svc (GetJsonReturns (JObj d))))
              = [AnalyzeText ep k JNull]"
    if "env ''CONTENT_SAFETY_KEY'' = Some k" "k \<noteq> []"
       "env ''CONTENT_SAFETY_ENDPOINT'' = Some ep" "ep \<noteq> []" "\<forall>e. svc \<noteq> ClientFails e" for k ep
    using that(5)
    by (cases svc) (simp_all add: handler_object_with_text [OF assms] analyze_configured [OF that(1-4)] effects_def)
  ultimately show ?thesis by blast
qed

text \<open>The amended C7 with a service that accepts the call.\<close>

theorem c7_null_text_passed_on_witness:
  "status (content_text_safety
       [''CONTENT_SAFETY_KEY'' \<mapsto> ''0123456789abcdef'', ''CONTENT_SAFETY_ENDPOINT'' \<mapsto> ''https://cs.example'']
       (CallReturns []) (GetJsonReturns (JObj [(''text'', JNull)]))) \<noteq> 400
   \<and> filter is_outbound (effects (content_text_safety
       [''CONTENT_SAFETY_KEY'' \<mapsto> ''0123456789abcdef'', ''CONTENT_SAFETY_ENDPOINT'' \<mapsto> ''https://cs.example'']
       (CallReturns []) (GetJsonReturns (JObj [(''text'', JNull)]))))
     = [AnalyzeText ''https://cs.example'' ''0123456789abcdef'' JNull]"
  using c7_null_text_passed_on [of "[(''text'', JNull)]"
      "[''CONTENT_SAFETY_KEY'' \<mapsto> ''0123456789abcdef'', ''CONTENT_SAFETY_ENDPOINT'' \<mapsto> ''https://cs.example'']"
      "CallReturns []"]
  by simp

subsection \<open>Diagnostics\<close>




subsection \<open>Success and the non-object body\<close>

text \<open>
  Claim C9. Whenever the response has status 200, the parsed body had a value under
  \<open>text\<close> and the response body holds the same value under \<open>text\<close>.
\<close>

theorem c9_text_echoed:
  assumes "status (content_text_safety env svc (GetJsonReturns v)) = 200"
  shows "\<exists>t. py_getitem v ''text'' = Inr t
           \<and> py_getitem (body (content_text_safety env svc (GetJsonReturns v))) ''text'' = Inr t"
proof -
  have not_handled: "status (handle_exn e []) \<noteq> 200" for e
    by (simp add: status_handle_exn)
  from assms not_handled obtain t where t: "py_getitem v ''text'' = Inr t"
    and run: "content_text_safety env svc (GetJsonReturns v) = analyze_content_safety env svc t"
    by (auto simp: content_text_safety_unfold status_def split: if_splits sum.splits)
  from assms run have "status (analyze_content_safety env svc t) = 200" by simp
  then have "body (analyze_content_safety env svc t) =
      JObj [(''text'', t), (''results'', JObj (normalize_results (case svc of CallReturns items \<Rightarrow> items | _ \<Rightarrow> [])))]"
    by (auto simp: analyze_content_safety_def analyze_try_def Let_def status_def body_def
        credentials_error_def split: option.splits service.splits if_splits)
  with t run show ?thesis by simp
qed

text \<open>C9 at a body with a second field and a service that returns one category.\<close>

theorem c9_text_echoed_witness:
  "status (content_text_safety
       [''CONTENT_SAFETY_KEY'' \<mapsto> ''0123456789abcdef'', ''CONTENT_SAFETY_ENDPOINT'' \<mapsto> ''https://cs.example'']
       (CallReturns [\<lparr>category = HATE, severity = Some 0\<rparr>])
       (GetJsonReturns (JObj [(''text'', JStr ''hello''), (''lang'', JStr ''en'')]))) = 200
   \<and> py_getitem (body (content_text_safety
       [''CONTENT_SAFETY_KEY'' \<mapsto> ''0123456789abcdef'', ''CONTENT_SAFETY_ENDPOINT'' \<mapsto> ''https://cs.example'']
       (CallReturns [\<lparr>category = HATE, severity = Some 0\<rparr>])
       (GetJsonReturns (JObj [(''text'', JStr ''hello''), (''lang'', JStr ''en'')])))) ''text''
     = Inr (JStr ''hello'')"
proof -
  have ok: "status (content_text_safety
       [''CONTENT_SAFETY_KEY'' \<mapsto> ''0123456789abcdef'', ''CONTENT_SAFETY_ENDPOINT'' \<mapsto> ''https://cs.example'']
       (CallReturns [\<lparr>category = HATE, severity = Some 0\<rparr>])
       (GetJsonReturns (JObj [(''text'', JStr ''hello''), (''lang'', JStr ''en'')]))) = 200"
    by (simp add: content_text_safety_unfold analyze_content_safety_def analyze_try_def Let_def status_def)
  from c9_text_echoed [OF ok] ok show ?thesis by simp
qed

text \<open>
  Claim C10. The JSON string \<open>"textbook"\<close> is valid JSON with no field; \<open>'text' in\<close> on a
  str is a substring test and succeeds, indexing the str with \<open>'text'\<close> raises
  \<open>TypeError\<close>, and the generic handler answers 500, for every environment and service.
\<close>

theorem c10_json_string_body_answers_500:
  "py_in ''text'' (JStr ''textbook'') = Inr True
   \<and> py_getitem (JStr ''textbook'') ''text''
       = Inl (TypeError (''string indices must be integers, not '' @ quoted ''str''))
   \<and> response (content_text_safety env svc (GetJsonReturns (JStr ''textbook'')))
       = (JObj [(''error'', JStr (''string indices must be integers, not '' @ quoted ''str''))], 500)"
  by (simp add: content_text_safety_unfold response_def)

end
